theory Spec2Isabelle
  imports Main
begin

section \<open>The values of the configuration module\<close>

text \<open>
  The repository is one file, \<^verbatim>\<open>.eslintrc.js\<close>: a single assignment of an object
  literal to \<^verbatim>\<open>module.exports\<close>. The literal is built from strings, integer
  numerals, booleans, arrays and nested object literals only. An object literal is kept
  as the list of its \<^verbatim>\<open>key: value\<close> entries in the order of the source text,
  so that a repeated key would still be visible in the model.
\<close>

datatype js_value =
    JStr string
  | JNum int
  | JBool bool
  | JArr "js_value list"
  | JObj "(string \<times> js_value) list"

text \<open>The entries of an object literal, and the elements of an array literal.\<close>

fun props :: "js_value \<Rightarrow> (string \<times> js_value) list" where
  "props (JObj kvs) = kvs"
| "props _ = []"

fun elems :: "js_value \<Rightarrow> js_value list" where
  "elems (JArr xs) = xs"
| "elems _ = []"

text \<open>
  Property access \<^verbatim>\<open>v[k]\<close>. When an object literal repeats a key, JavaScript keeps
  the value of the last entry, so the lookup runs over the reversed entry list.
  \<open>None\<close> stands for \<^verbatim>\<open>undefined\<close>.
\<close>

definition get_prop :: "string \<Rightarrow> js_value \<Rightarrow> js_value option" where
  "get_prop k v = map_of (rev (props v)) k"

definition has_prop :: "string \<Rightarrow> js_value \<Rightarrow> bool" where
  "has_prop k v = (get_prop k v \<noteq> None)"

section \<open>The exported configuration object\<close>

text \<open>The object literal of lines 11 to 197 of \<^verbatim>\<open>.eslintrc.js\<close>, entry by entry.\<close>

definition module_exports :: js_value where
  "module_exports = JObj [
     (''root'', JBool True),
     (''ignorePatterns'', JArr [
        JStr ''/dist'',
        JStr ''/coverage'']),
     (''env'', JObj [
        (''es2017'', JBool True),
        (''node'', JBool True)]),
     (''extends'', JArr [
        JStr ''eslint:recommended'',
        JStr ''plugin:node/recommended'',
        JStr ''airbnb-base'',
        JStr ''plugin:jsdoc/recommended'']),
     (''rules'', JObj [
        (''no-tabs'', JStr ''error''),
        (''no-sequences'', JStr ''error'')]),
     (''overrides'', JArr [
        JObj [
          (''files'', JArr [JStr ''**/*.ts'']),
          (''parser'', JStr ''@typescript-eslint/parser''),
          (''parserOptions'', JObj [
             (''project'', JStr ''./tsconfig.eslint.json'')]),
          (''plugins'', JArr [JStr ''@typescript-eslint'']),
          (''extends'', JArr [
             JStr ''plugin:@typescript-eslint/recommended'',
             JStr ''airbnb-typescript/base'']),
          (''rules'', JObj [
             (''import/no-common-js'', JArr [JStr ''error'', JObj [
                (''allowConditionalRequire'', JBool False)]]),
             (''import/named'', JStr ''off''),
             (''@typescript-eslint/strict-boolean-expressions'', JArr [JStr ''error'', JObj [
                (''allowString'', JBool False),
                (''allowNumber'', JBool False),
                (''allowNullableObject'', JBool False)]]),
             (''@typescript-eslint/consistent-type-definitions'',
                JArr [JStr ''error'', JStr ''interface'']),
             (''@typescript-eslint/explicit-member-accessibility'', JStr ''error''),
             (''@typescript-eslint/consistent-type-assertions'', JArr [JStr ''error'', JObj [
                (''assertionStyle'', JStr ''as''),
                (''objectLiteralTypeAssertions'', JStr ''allow-as-parameter'')]]),
             (''@typescript-eslint/explicit-module-boundary-types'', JArr [JStr ''error'', JObj [
                (''allowArgumentsExplicitlyTypedAsAny'', JBool True)]]),
             (''jsdoc/no-types'', JStr ''error'')])],
        JObj [
          (''files'', JArr [JStr ''**/*.js'', JStr ''**/*.ts'']),
          (''rules'', JObj [
             (''max-len'', JArr [JStr ''error'', JNum 120, JNum 2, JObj [
                (''ignoreUrls'', JBool True),
                (''ignoreComments'', JBool False),
                (''ignoreRegExpLiterals'', JBool True),
                (''ignoreStrings'', JBool True),
                (''ignoreTemplateLiterals'', JBool True)]]),
             (''quotes'', JArr [JStr ''error'', JStr ''single'', JObj [
                (''avoidEscape'', JBool True),
                (''allowTemplateLiterals'', JBool False)]]),
             (''camelcase'', JStr ''off''),
             (''no-underscore-dangle'', JStr ''off''),
             (''@typescript-eslint/naming-convention'', JArr [
                JStr ''error'',
                JObj [
                  (''selector'', JStr ''default''),
                  (''format'', JArr [JStr ''camelCase''])],
                JObj [
                  (''selector'', JStr ''variable''),
                  (''format'', JArr [JStr ''camelCase'', JStr ''PascalCase'', JStr ''UPPER_CASE''])],
                JObj [
                  (''selector'', JStr ''parameter''),
                  (''format'', JArr [JStr ''camelCase'']),
                  (''leadingUnderscore'', JStr ''allow'')],
                JObj [
                  (''selector'', JStr ''typeLike''),
                  (''format'', JArr [JStr ''PascalCase''])]]),
             (''import/no-cycle'', JStr ''off''),
             (''import/no-internal-modules'', JArr [JStr ''error'', JObj [
                (''allow'', JArr [])]])])]])]"

section \<open>Reading the configuration\<close>

text \<open>
  The scope levels of a configuration: the configuration itself, then each block of
  its \<^verbatim>\<open>overrides\<close> array in declaration order.
\<close>

definition override_blocks :: "js_value \<Rightarrow> js_value list" where
  "override_blocks cfg = (case get_prop ''overrides'' cfg of Some a \<Rightarrow> elems a | None \<Rightarrow> [])"

definition scopes :: "js_value \<Rightarrow> js_value list" where
  "scopes cfg = cfg # override_blocks cfg"

text \<open>The entries of the \<^verbatim>\<open>rules\<close> mapping of one scope level, as written.\<close>

definition rule_entries :: "js_value \<Rightarrow> (string \<times> js_value) list" where
  "rule_entries scope = (case get_prop ''rules'' scope of Some r \<Rightarrow> props r | None \<Rightarrow> [])"

definition all_rule_entries :: "js_value \<Rightarrow> (string \<times> js_value) list" where
  "all_rule_entries cfg = concat (map rule_entries (scopes cfg))"

text \<open>
  The severity vocabulary of the spec's glossary (off/warn/error), the severity a rule
  setting carries (the setting itself, or the head of its array), and the shape a rule
  setting has to have.
\<close>

definition severities :: "string list" where
  "severities = [''off'', ''warn'', ''error'']"

fun severity_of :: "js_value \<Rightarrow> string option" where
  "severity_of (JStr s) = Some s"
| "severity_of (JArr (JStr s # opts)) = Some s"
| "severity_of _ = None"

definition rule_setting_ok :: "js_value \<Rightarrow> bool" where
  "rule_setting_ok v = (case severity_of v of Some s \<Rightarrow> s \<in> set severities | None \<Rightarrow> False)"

text \<open>The strings of an array of strings; \<open>None\<close> when an element is not a string.\<close>

fun strings_of :: "js_value list \<Rightarrow> string list option" where
  "strings_of [] = Some []"
| "strings_of (JStr s # vs) = (case strings_of vs of Some ss \<Rightarrow> Some (s # ss) | None \<Rightarrow> None)"
| "strings_of (_ # vs) = None"

definition string_list :: "string \<Rightarrow> js_value \<Rightarrow> string list option" where
  "string_list k v = (case get_prop k v of Some (JArr xs) \<Rightarrow> strings_of xs | _ \<Rightarrow> None)"

fun is_bool :: "js_value \<Rightarrow> bool" where
  "is_bool (JBool b) = True"
| "is_bool _ = False"

fun is_obj :: "js_value \<Rightarrow> bool" where
  "is_obj (JObj kvs) = True"
| "is_obj _ = False"

text \<open>
  The \<^verbatim>\<open>env\<close> mapping as written, and whether an environment name is enabled in
  it (its property is the boolean \<^verbatim>\<open>true\<close>).
\<close>

definition env_flags :: "js_value \<Rightarrow> (string \<times> js_value) list" where
  "env_flags cfg = (case get_prop ''env'' cfg of Some e \<Rightarrow> props e | None \<Rightarrow> [])"

definition env_enabled :: "js_value \<Rightarrow> string \<Rightarrow> bool" where
  "env_enabled cfg name =
     (case get_prop ''env'' cfg of Some e \<Rightarrow> get_prop name e = Some (JBool True) | None \<Rightarrow> False)"

text \<open>
  What it means for an override block to carry a preset list, a plugin list and a rule
  mapping of its own: the three properties are present in the block.
\<close>

definition carries_own_lists :: "js_value \<Rightarrow> bool" where
  "carries_own_lists b =
     (has_prop ''extends'' b \<and> has_prop ''plugins'' b \<and> has_prop ''rules'' b)"

section \<open>Properties of the configuration\<close>

lemmas cfg_defs =
  module_exports_def get_prop_def has_prop_def override_blocks_def scopes_def
  rule_entries_def all_rule_entries_def string_list_def env_flags_def env_enabled_def

text \<open>
  The configuration has three scope levels (the top level and two override blocks), and
  across all of them it sets seventeen rules, no rule identifier twice.
\<close>

lemma scopes_length: "length (scopes module_exports) = 3"
  by (simp add: cfg_defs)

lemma rule_ids_distinct_across_scopes:
  "distinct (map fst (all_rule_entries module_exports))"
  by (simp add: cfg_defs)

text \<open>
  C2: within each scope level (the top-level rules with 2 entries, the rules of the first
  override block with 8 entries, the rules of the second override block with 7 entries)
  the rule identifiers of the entries, as written in the source, are pairwise different:
  no identifier is set twice at one level, so none can be set twice with conflicting
  severities.
\<close>

theorem rule_ids_distinct_per_scope:
  "map (\<lambda>s. length (rule_entries s)) (scopes module_exports) = [2, 8, 7] \<and>
   list_all (\<lambda>s. distinct (map fst (rule_entries s))) (scopes module_exports)"
  by (simp add: cfg_defs)

text \<open>
  C3: the exported value is an object, the \<^verbatim>\<open>rules\<close> property of every scope level
  is an object, and each of its seventeen entries maps its identifier (a string) to a
  setting that is a severity string, or an array whose first element is a severity
  string (whatever follows are the rule's options).
\<close>

theorem rule_settings_well_formed:
  "is_obj module_exports \<and>
   list_all (\<lambda>s. case get_prop ''rules'' s of Some r \<Rightarrow> is_obj r | None \<Rightarrow> False)
     (scopes module_exports) \<and>
   list_all (\<lambda>(k, v). rule_setting_ok v) (all_rule_entries module_exports) \<and>
   length (all_rule_entries module_exports) = 17"
  by (simp add: cfg_defs rule_setting_ok_def severities_def)

text \<open>C5: the \<^verbatim>\<open>root\<close> property of the configuration is the boolean \<^verbatim>\<open>true\<close>.\<close>

theorem root_flag_true:
  "get_prop ''root'' module_exports = Some (JBool True) \<and>
   map_option is_bool (get_prop ''root'' module_exports) = Some True"
  by (simp add: cfg_defs)

text \<open>
  C6: the \<^verbatim>\<open>ignorePatterns\<close> property is an array of strings, and the set of its
  elements is exactly \<^verbatim>\<open>/dist\<close> and \<^verbatim>\<open>/coverage\<close>.
\<close>

theorem ignore_patterns_exact:
  "string_list ''ignorePatterns'' module_exports = Some [''/dist'', ''/coverage''] \<and>
   map_option set (string_list ''ignorePatterns'' module_exports) =
     Some {''/dist'', ''/coverage''}"
  by (simp add: cfg_defs)

text \<open>
  C7: the \<^verbatim>\<open>env\<close> property is a mapping of two named flags, \<^verbatim>\<open>es2017\<close> and
  \<^verbatim>\<open>node\<close>, each of them a boolean, and an environment name is enabled (mapped to
  \<^verbatim>\<open>true\<close>) exactly when it is one of these two.
\<close>

theorem env_flags_exact:
  "map fst (env_flags module_exports) = [''es2017'', ''node''] \<and>
   list_all (\<lambda>(k, v). is_bool v) (env_flags module_exports) \<and>
   env_enabled module_exports name = (name = ''es2017'' \<or> name = ''node'')"
  by (auto simp add: cfg_defs)

text \<open>
  C8, as stated, fails: not every override block carries a preset list, a plugin list
  and a rule mapping of its own. The second block (for \<^verbatim>\<open>**/*.js\<close> and
  \<^verbatim>\<open>**/*.ts\<close>) has the properties \<^verbatim>\<open>files\<close> and \<^verbatim>\<open>rules\<close> only.
\<close>

theorem override_blocks_not_all_carry_lists:
  "\<not> list_all carries_own_lists (override_blocks module_exports)"
  by (simp add: cfg_defs carries_own_lists_def)

text \<open>
  C8, amended: the top-level \<^verbatim>\<open>extends\<close> list is the four presets
  \<^verbatim>\<open>eslint:recommended\<close>, \<^verbatim>\<open>plugin:node/recommended\<close>, \<^verbatim>\<open>airbnb-base\<close>,
  \<^verbatim>\<open>plugin:jsdoc/recommended\<close> in that order. There are two override blocks, scoped
  by \<^verbatim>\<open>**/*.ts\<close> and by \<^verbatim>\<open>**/*.js\<close>, \<^verbatim>\<open>**/*.ts\<close>, and each carries its own rule
  mapping. The first also carries its own preset list
  (\<^verbatim>\<open>plugin:@typescript-eslint/recommended\<close>, then \<^verbatim>\<open>airbnb-typescript/base\<close>) and
  its own plugin list (\<^verbatim>\<open>@typescript-eslint\<close>); the second has neither a preset list
  nor a plugin list.
\<close>

theorem extends_and_override_blocks:
  "string_list ''extends'' module_exports =
     Some [''eslint:recommended'', ''plugin:node/recommended'', ''airbnb-base'',
           ''plugin:jsdoc/recommended''] \<and>
   map (string_list ''files'') (override_blocks module_exports) =
     [Some [''**/*.ts''], Some [''**/*.js'', ''**/*.ts'']] \<and>
   map (has_prop ''rules'') (override_blocks module_exports) = [True, True] \<and>
   map (string_list ''extends'') (override_blocks module_exports) =
     [Some [''plugin:@typescript-eslint/recommended'', ''airbnb-typescript/base''], None] \<and>
   map (string_list ''plugins'') (override_blocks module_exports) =
     [Some [''@typescript-eslint''], None] \<and>
   map (has_prop ''extends'') (override_blocks module_exports) = [True, False] \<and>
   map (has_prop ''plugins'') (override_blocks module_exports) = [True, False]"
  by (simp add: cfg_defs)

text \<open>
  C10: the severities used by the rule entries of all scope levels are exactly
  \<^verbatim>\<open>error\<close> and \<^verbatim>\<open>off\<close>: every entry has one of the two, and \<^verbatim>\<open>warn\<close> is the
  severity of no entry.
\<close>

theorem severities_error_or_off:
  "set (map (severity_of \<circ> snd) (all_rule_entries module_exports)) =
     {Some ''error'', Some ''off''} \<and>
   Some ''warn'' \<notin> set (map (severity_of \<circ> snd) (all_rule_entries module_exports))"
  by (simp add: cfg_defs insert_commute)

end
